theory Spec2Isabelle
  imports Main "HOL-Library.Word"
begin

section \<open>Data of the two FaaS clients\<close>

text \<open>
  The repository holds two Python modules, \<^verbatim>\<open>cloud_service_utils/inpainting.py\<close> and
  \<^verbatim>\<open>cloud_service_utils/segmentation.py\<close>, each with one function. Both read the process
  environment and the file system, call the libraries \<^verbatim>\<open>cv2\<close>, \<^verbatim>\<open>base64\<close>, \<^verbatim>\<open>requests\<close>
  and (by name) \<^verbatim>\<open>json\<close>, print diagnostics and either return a value or write a file.
  The embedding passes the outside world explicitly and returns every exception as a value.
\<close>

type_synonym byte = "8 word"
type_synonym bytes = "byte list"

text \<open>A \<^verbatim>\<open>cv2\<close> image: a numpy array of 8-bit samples.\<close>

datatype image = Image (rows: nat) (cols: nat) (samples: bytes)

text \<open>
  Python values that travel as JSON. A float is kept by the two things the clients can
  observe of it: its truth value and the text \<^verbatim>\<open>repr\<close> gives it. A dict is an association
  list in insertion order.
\<close>

datatype json =
    JNull
  | JBool bool
  | JInt int
  | JFloat (float_truth: bool) (float_repr: string)
  | JStr string
  | JArr "json list"
  | JObj "(string \<times> json) list"

text \<open>The exceptions the two functions can raise, by their Python class.\<close>

datatype error =
    ValueError string
  | NameError string
  | HTTPError nat string
  | OSError string
  | ConnectionError
  | CvError
  | JSONDecodeError
  | AttributeError
  | TypeError
  | BinasciiError

record http_request =
  url :: string
  headers :: "(string \<times> string) list"
  data :: string

record http_response =
  status_code :: nat
  resp_text :: string

text \<open>What \<^verbatim>\<open>print\<close> writes, one entry per call, by the values printed.\<close>

datatype diag =
    Diag_post string
  | Diag_payload json
  | Diag_status nat
  | Diag_response_text string
  | Diag_inference_time json
  | Diag_overall_time json
  | Diag_total_time
  | Diag_saved string

text \<open>
  The world outside a call: \<^verbatim>\<open>os.environ\<close>, the readable files with their contents, the
  paths \<^verbatim>\<open>open\<close> can open for writing, what the remote service answers to a request
  (\<open>None\<close>: the transport fails), the requests that reached the transport, and standard output.
\<close>

record world =
  environ :: "string \<rightharpoonup> string"
  files :: "string \<rightharpoonup> bytes"
  writable :: "string \<Rightarrow> bool"
  service :: "http_request \<Rightarrow> http_response option"
  sent :: "http_request list"
  stdout :: "diag list"

text \<open>
  The library functions whose results the embedding does not compute, taken as parameters:
  \<^verbatim>\<open>cv2.imencode('.png', img)\<close> (\<open>None\<close>: \<^verbatim>\<open>cv2.error\<close>),
  \<^verbatim>\<open>cv2.imdecode(np.frombuffer(data, np.uint8), cv2.IMREAD_COLOR)\<close> (which raises, or
  returns an image, or returns Python's \<^verbatim>\<open>None\<close> for bytes it cannot decode),
  \<^verbatim>\<open>base64.b64decode\<close> on a string (\<open>None\<close>: \<^verbatim>\<open>binascii.Error\<close>) and
  \<^verbatim>\<open>response.json()\<close> on the body text (\<open>None\<close>: \<^verbatim>\<open>JSONDecodeError\<close>).
\<close>

record lib =
  imencode_png :: "image \<Rightarrow> bytes option"
  imdecode_color :: "bytes \<Rightarrow> error + image option"
  b64decode :: "string \<Rightarrow> bytes option"
  json_loads :: "string \<Rightarrow> json option"

text \<open>The parameters of the two functions; \<open>None\<close> is Python's \<^verbatim>\<open>None\<close>.\<close>

record common_args =
  image_cv2 :: "image option"
  image_path :: "string option"
  output_path :: string
  endpoint_id :: string
  debug :: bool

record inpaint_args = common_args +
  mask_cv2 :: "image option"
  mask_path :: "string option"

record segment_args = common_args +
  class_names :: "string list option"

record segmentation =
  masks :: "image option list"
  bounding_boxes :: json

section \<open>Library functions that are computed\<close>

subsection \<open>\<^verbatim>\<open>base64.b64encode\<close> (RFC 4648, standard alphabet, padded)\<close>

definition b64_char :: "nat \<Rightarrow> char" where
  "b64_char n =
     (if n < 26 then char_of (n + 65)
      else if n < 52 then char_of (n + 71)
      else if n < 62 then char_of (n - 4)
      else if n = 62 then CHR ''+'' else CHR ''/'')"

fun b64encode :: "bytes \<Rightarrow> string" where
  "b64encode [] = []"
| "b64encode [a] =
     [b64_char (unat a div 4), b64_char (unat a mod 4 * 16), CHR ''='', CHR ''='']"
| "b64encode [a, b] =
     [b64_char (unat a div 4), b64_char (unat a mod 4 * 16 + unat b div 16),
      b64_char (unat b mod 16 * 4), CHR ''='']"
| "b64encode (a # b # c # rest) =
     [b64_char (unat a div 4), b64_char (unat a mod 4 * 16 + unat b div 16),
      b64_char (unat b mod 16 * 4 + unat c div 64), b64_char (unat c mod 64)]
     @ b64encode rest"

subsection \<open>\<^verbatim>\<open>json.dumps\<close> with its default separators\<close>

fun decimal :: "nat \<Rightarrow> string" where
  "decimal n =
     (if n < 10 then [char_of (n + 48)] else decimal (n div 10) @ [char_of (n mod 10 + 48)])"

definition str_int :: "int \<Rightarrow> string" where
  "str_int i = (if i < 0 then CHR ''-'' # decimal (nat (- i)) else decimal (nat i))"

definition hex_digit :: "nat \<Rightarrow> char" where
  "hex_digit n = (if n < 10 then char_of (n + 48) else char_of (n + 87))"

definition escape_char :: "char \<Rightarrow> string" where
  "escape_char c =
     (let n = (of_char c :: nat) in
      if c = CHR ''\"'' then [CHR 0x5C, CHR ''\"'']
      else if c = CHR 0x5C then [CHR 0x5C, CHR 0x5C]
      else if c = CHR 0x0A then [CHR 0x5C, CHR ''n'']
      else if c = CHR 0x0D then [CHR 0x5C, CHR ''r'']
      else if c = CHR 0x09 then [CHR 0x5C, CHR ''t'']
      else if c = CHR 0x08 then [CHR 0x5C, CHR ''b'']
      else if c = CHR 0x0C then [CHR 0x5C, CHR ''f'']
      else if n < 32 \<or> 127 < n
        then [CHR 0x5C, CHR ''u'', CHR ''0'', CHR ''0'', hex_digit (n div 16), hex_digit (n mod 16)]
      else [c])"

definition quote :: "string \<Rightarrow> string" where
  "quote s = CHR ''\"'' # concat (map escape_char s) @ [CHR ''\"'']"

fun join :: "string \<Rightarrow> string list \<Rightarrow> string" where
  "join sep [] = []"
| "join sep [x] = x"
| "join sep (x # y # ys) = x @ sep @ join sep (y # ys)"

fun json_dumps :: "json \<Rightarrow> string" where
  "json_dumps JNull = ''null''"
| "json_dumps (JBool b) = (if b then ''true'' else ''false'')"
| "json_dumps (JInt i) = str_int i"
| "json_dumps (JFloat t r) = r"
| "json_dumps (JStr s) = quote s"
| "json_dumps (JArr xs) = ''['' @ join '', '' (map json_dumps xs) @ '']''"
| "json_dumps (JObj kvs) =
     ''{'' @ join '', '' (map (\<lambda>kv. quote (fst kv) @ '': '' @ json_dumps (snd kv)) kvs) @ ''}''"

section \<open>Steps shared by the two functions\<close>

text \<open>
  \<^verbatim>\<open>api_key = os.getenv('RUNPOD_API_KEY')\<close>, then \<^verbatim>\<open>if not api_key: raise ValueError(...)\<close>:
  an unset variable and an empty one both raise.
\<close>

definition credential_message :: string where
  "credential_message = ''RUNPOD_API_KEY environment variable is not set.''"

definition load_api_key :: "world \<Rightarrow> error + string" where
  "load_api_key w =
     (case environ w ''RUNPOD_API_KEY'' of
        None \<Rightarrow> Inl (ValueError credential_message)
      | Some api_key \<Rightarrow>
          if api_key = [] then Inl (ValueError credential_message) else Inr api_key)"

definition endpoint_url :: "string \<Rightarrow> string" where
  "endpoint_url eid = ''https://api.runpod.ai/v2/'' @ eid @ ''/runsync''"

text \<open>
  The block "Convert image to base64" (and its copy for the mask): an in-memory image is
  encoded as PNG and the buffer base64-encoded; otherwise the file at the path is read in
  binary mode and its bytes are base64-encoded as they are; with neither, \<^verbatim>\<open>ValueError\<close>.
\<close>

definition missing_message :: "string \<Rightarrow> string" where
  "missing_message what = ''Either '' @ what @ '' or '' @ what @ ''_path must be provided.''"

definition to_base64 ::
  "lib \<Rightarrow> world \<Rightarrow> image option \<Rightarrow> string option \<Rightarrow> string \<Rightarrow> error + string" where
  "to_base64 L w img path what =
     (case img of
        Some i \<Rightarrow>
          (case imencode_png L i of
             None \<Rightarrow> Inl CvError
           | Some buffer \<Rightarrow> Inr (b64encode buffer))
      | None \<Rightarrow>
          (case path of
             Some p \<Rightarrow>
               (case files w p of
                  None \<Rightarrow> Inl (OSError p)
                | Some raw \<Rightarrow> Inr (b64encode raw))
           | None \<Rightarrow> Inl (ValueError (missing_message what))))"

text \<open>
  Reading a global name inside a function body: the name is looked up, when the line runs,
  among the names bound in the module (\<open>ns\<close>); an unbound name raises \<^verbatim>\<open>NameError\<close>.
  (\<^verbatim>\<open>json\<close> is not a builtin.)
\<close>

definition load_global :: "string list \<Rightarrow> string \<Rightarrow> error + unit" where
  "load_global ns name = (if name \<in> set ns then Inr () else Inl (NameError name))"

definition print_diag :: "diag \<Rightarrow> world \<Rightarrow> world" where
  "print_diag d w = w\<lparr>stdout := stdout w @ [d]\<rparr>"

definition request_headers :: "string \<Rightarrow> (string \<times> string) list" where
  "request_headers api_key =
     [(''Content-Type'', ''application/json''), (''Authorization'', ''Bearer '' @ api_key)]"

text \<open>\<^verbatim>\<open>requests.post\<close>: the request reaches the transport, which answers or fails.\<close>

definition requests_post :: "world \<Rightarrow> http_request \<Rightarrow> (error + http_response) \<times> world" where
  "requests_post w rq =
     (let w' = w\<lparr>sent := sent w @ [rq]\<rparr> in
      case service w rq of
        None \<Rightarrow> (Inl ConnectionError, w')
      | Some response \<Rightarrow> (Inr response, w'))"

text \<open>\<^verbatim>\<open>Response.raise_for_status\<close> raises for the client and server error classes.\<close>

definition raise_for_status :: "http_response \<Rightarrow> error + unit" where
  "raise_for_status r =
     (if 400 \<le> status_code r \<and> status_code r < 600
      then Inl (HTTPError (status_code r) (resp_text r)) else Inr ())"

text \<open>\<^verbatim>\<open>x.get(key, default)\<close>: only a dict has the method.\<close>

fun dict_get :: "json \<Rightarrow> string \<Rightarrow> json \<Rightarrow> error + json" where
  "dict_get (JObj kvs) key dflt = Inr (case map_of kvs key of None \<Rightarrow> dflt | Some v \<Rightarrow> v)"
| "dict_get _ key dflt = Inl AttributeError"

text \<open>Python's truth value of a JSON value (\<^verbatim>\<open>not x\<close> is its negation).\<close>

fun truthy :: "json \<Rightarrow> bool" where
  "truthy JNull = False"
| "truthy (JBool b) = b"
| "truthy (JInt i) = (i \<noteq> 0)"
| "truthy (JFloat t r) = t"
| "truthy (JStr s) = (s \<noteq> [])"
| "truthy (JArr xs) = (xs \<noteq> [])"
| "truthy (JObj kvs) = (kvs \<noteq> [])"

text \<open>\<^verbatim>\<open>base64.b64decode(x)\<close> on a JSON value: anything but a string is a \<^verbatim>\<open>TypeError\<close>.\<close>

fun b64decode_value :: "lib \<Rightarrow> json \<Rightarrow> error + bytes" where
  "b64decode_value L (JStr s) =
     (case b64decode L s of None \<Rightarrow> Inl BinasciiError | Some raw \<Rightarrow> Inr raw)"
| "b64decode_value L _ = Inl TypeError"

text \<open>Python's \<^verbatim>\<open>x is not None\<close>.\<close>

fun is_not_None :: "'a option \<Rightarrow> bool" where
  "is_not_None None = False"
| "is_not_None (Some x) = True"

text \<open>Writing text to a file opened in text mode: the text is ASCII, one byte per character.\<close>

definition encode_text :: "string \<Rightarrow> bytes" where
  "encode_text s = map (\<lambda>c. word_of_nat (of_char c)) s"

section \<open>\<^verbatim>\<open>inpainting.py\<close>\<close>

text \<open>The names the module binds: its six imports, its constant and its function.\<close>

definition inpainting_globals :: "string list" where
  "inpainting_globals =
     [''time'', ''requests'', ''base64'', ''os'', ''cv2'', ''np'',
      ''RUNPOD_ENDPOINT_ID'', ''inpaint_image_via_faas'']"

definition inpainting_RUNPOD_ENDPOINT_ID :: string where
  "inpainting_RUNPOD_ENDPOINT_ID = ''906cbtg1541h5c''"

definition inpaint_payload :: "string \<Rightarrow> string \<Rightarrow> json" where
  "inpaint_payload image_base64 mask_base64 =
     JObj [(''input'', JObj [(''image'', JStr image_base64), (''mask'', JStr mask_base64)])]"

text \<open>
  Lines 29 to 63: the credential, the two sources, the payload. Nothing outside the call is
  changed by these lines.
\<close>

definition inpaint_prepare :: "lib \<Rightarrow> world \<Rightarrow> inpaint_args \<Rightarrow> error + string \<times> json" where
  "inpaint_prepare L w a =
     (case load_api_key w of
        Inl e \<Rightarrow> Inl e
      | Inr api_key \<Rightarrow>
     (case to_base64 L w (image_cv2 a) (image_path a) ''image'' of
        Inl e \<Rightarrow> Inl e
      | Inr image_base64 \<Rightarrow>
     (case to_base64 L w (mask_cv2 a) (mask_path a) ''mask'' of
        Inl e \<Rightarrow> Inl e
      | Inr mask_base64 \<Rightarrow> Inr (api_key, inpaint_payload image_base64 mask_base64))))"

text \<open>
  Lines 85 to 115, from \<^verbatim>\<open>response.raise_for_status()\<close> to the end. The wall-clock
  measurement is printed under \<^verbatim>\<open>debug\<close> only and is kept as an entry without its value.
\<close>

definition empty_message :: string where
  "empty_message = ''No output image in the response.''"

definition print_timing :: "json \<Rightarrow> world \<Rightarrow> error + world" where
  "print_timing stats w =
     (case dict_get stats ''inference_time'' (JStr ''N/A'') of
        Inl e \<Rightarrow> Inl e
      | Inr inference_time \<Rightarrow>
     (case dict_get stats ''overall_time'' (JStr ''N/A'') of
        Inl e \<Rightarrow> Inl e
      | Inr overall_time \<Rightarrow>
          Inr (print_diag Diag_total_time
                (print_diag (Diag_overall_time overall_time)
                  (print_diag (Diag_inference_time inference_time) w)))))"

definition inpaint_finish ::
  "lib \<Rightarrow> world \<Rightarrow> inpaint_args \<Rightarrow> http_response \<Rightarrow> (error + image option) \<times> world" where
  "inpaint_finish L w a response =
     (case raise_for_status response of
        Inl e \<Rightarrow> (Inl e, w)
      | Inr _ \<Rightarrow>
     (case json_loads L (resp_text response) of
        None \<Rightarrow> (Inl JSONDecodeError, w)
      | Some response_json \<Rightarrow>
     (case dict_get response_json ''output_image'' (JStr []) of
        Inl e \<Rightarrow> (Inl e, w)
      | Inr output_image_base64 \<Rightarrow>
     (case dict_get response_json ''stats'' (JObj []) of
        Inl e \<Rightarrow> (Inl e, w)
      | Inr stats \<Rightarrow>
     if \<not> truthy output_image_base64 then (Inl (ValueError empty_message), w)
     else
     (case b64decode_value L output_image_base64 of
        Inl e \<Rightarrow> (Inl e, w)
      | Inr output_image_data \<Rightarrow>
     (case (if debug a then print_timing stats w else Inr w) of
        Inl e \<Rightarrow> (Inl e, w)
      | Inr w1 \<Rightarrow>
     if is_not_None (image_cv2 a) \<or> is_not_None (mask_cv2 a) then
       (case imdecode_color L output_image_data of
          Inl e \<Rightarrow> (Inl e, w1)
        | Inr result_image \<Rightarrow> (Inr result_image, w1))
     else if \<not> writable w1 (output_path a) then (Inl (OSError (output_path a)), w1)
     else
       (Inr None,
        print_diag (Diag_saved (output_path a))
          (w1\<lparr>files := (files w1)(output_path a \<mapsto> output_image_data)\<rparr>))))))))"

text \<open>
  The whole function, in a module that binds the names \<open>ns\<close>. Lines 65 to 76 read the
  global \<^verbatim>\<open>json\<close> twice: in the payload print under \<^verbatim>\<open>debug\<close>, and among the arguments
  of \<^verbatim>\<open>requests.post\<close>, which Python evaluates before the call.
\<close>

definition inpaint_image_via_faas_in ::
  "string list \<Rightarrow> lib \<Rightarrow> world \<Rightarrow> inpaint_args \<Rightarrow> (error + image option) \<times> world" where
  "inpaint_image_via_faas_in ns L w a =
     (case inpaint_prepare L w a of
        Inl e \<Rightarrow> (Inl e, w)
      | Inr (api_key, payload) \<Rightarrow>
     (let endpoint = endpoint_url (endpoint_id a);
          w1 = (if debug a then print_diag (Diag_post endpoint) w else w) in
     (case (if debug a then load_global ns ''json'' else Inr ()) of
        Inl e \<Rightarrow> (Inl e, w1)
      | Inr _ \<Rightarrow>
     (let w2 = (if debug a then print_diag (Diag_payload payload) w1 else w1) in
     (case load_global ns ''json'' of
        Inl e \<Rightarrow> (Inl e, w2)
      | Inr _ \<Rightarrow>
     (case requests_post w2
             \<lparr>url = endpoint, headers = request_headers api_key, data = json_dumps payload\<rparr> of
        (Inl e, w3) \<Rightarrow> (Inl e, w3)
      | (Inr response, w3) \<Rightarrow>
     (let w4 = (if debug a
                then print_diag (Diag_response_text (resp_text response))
                       (print_diag (Diag_status (status_code response)) w3)
                else w3) in
      inpaint_finish L w4 a response)))))))"

text \<open>The function as the module defines it: in the module's own namespace.\<close>

definition inpaint_image_via_faas ::
  "lib \<Rightarrow> world \<Rightarrow> inpaint_args \<Rightarrow> (error + image option) \<times> world" where
  "inpaint_image_via_faas = inpaint_image_via_faas_in inpainting_globals"

section \<open>\<^verbatim>\<open>segmentation.py\<close>\<close>

definition segmentation_globals :: "string list" where
  "segmentation_globals =
     [''requests'', ''base64'', ''os'', ''cv2'', ''np'',
      ''RUNPOD_ENDPOINT_ID'', ''segment_image_via_faas'']"

definition segmentation_RUNPOD_ENDPOINT_ID :: string where
  "segmentation_RUNPOD_ENDPOINT_ID = ''your_default_segmentation_endpoint_id_here''"

definition segment_payload :: "string \<Rightarrow> string list option \<Rightarrow> json" where
  "segment_payload image_base64 names =
     JObj [(''input'',
            JObj [(''image'', JStr image_base64),
                  (''class_names'',
                   (case names of None \<Rightarrow> JNull | Some cs \<Rightarrow> JArr (map JStr cs)))])]"

definition segment_prepare :: "lib \<Rightarrow> world \<Rightarrow> segment_args \<Rightarrow> error + string \<times> json" where
  "segment_prepare L w a =
     (case load_api_key w of
        Inl e \<Rightarrow> Inl e
      | Inr api_key \<Rightarrow>
     (case to_base64 L w (image_cv2 a) (image_path a) ''image'' of
        Inl e \<Rightarrow> Inl e
      | Inr image_base64 \<Rightarrow> Inr (api_key, segment_payload image_base64 (class_names a))))"

text \<open>
  What the comprehension \<^verbatim>\<open>for mask in response_json.get('masks', [])\<close> iterates over:
  the items of a list, the characters of a string, the keys of a dict; other values are not
  iterable.
\<close>

fun iterate :: "json \<Rightarrow> error + json list" where
  "iterate (JArr xs) = Inr xs"
| "iterate (JStr s) = Inr (map (\<lambda>c. JStr [c]) s)"
| "iterate (JObj kvs) = Inr (map (\<lambda>kv. JStr (fst kv)) kvs)"
| "iterate _ = Inl TypeError"

fun decode_masks :: "lib \<Rightarrow> json list \<Rightarrow> error + image option list" where
  "decode_masks L [] = Inr []"
| "decode_masks L (m # ms) =
     (case b64decode_value L m of
        Inl e \<Rightarrow> Inl e
      | Inr raw \<Rightarrow>
     (case imdecode_color L raw of
        Inl e \<Rightarrow> Inl e
      | Inr img \<Rightarrow>
     (case decode_masks L ms of
        Inl e \<Rightarrow> Inl e
      | Inr imgs \<Rightarrow> Inr (img # imgs))))"

text \<open>
  Lines 69 to 86. With the image given by path, \<^verbatim>\<open>open(output_path, "w")\<close> creates or
  empties the file before \<^verbatim>\<open>json.dump\<close>, which reads the global \<^verbatim>\<open>json\<close>, runs.
\<close>

definition segment_finish ::
  "string list \<Rightarrow> lib \<Rightarrow> world \<Rightarrow> segment_args \<Rightarrow> http_response \<Rightarrow>
     (error + segmentation option) \<times> world" where
  "segment_finish ns L w a response =
     (case raise_for_status response of
        Inl e \<Rightarrow> (Inl e, w)
      | Inr _ \<Rightarrow>
     (case json_loads L (resp_text response) of
        None \<Rightarrow> (Inl JSONDecodeError, w)
      | Some response_json \<Rightarrow>
     if is_not_None (image_cv2 a) then
       (case dict_get response_json ''masks'' (JArr []) of
          Inl e \<Rightarrow> (Inl e, w)
        | Inr ms \<Rightarrow>
       (case iterate ms of
          Inl e \<Rightarrow> (Inl e, w)
        | Inr items \<Rightarrow>
       (case decode_masks L items of
          Inl e \<Rightarrow> (Inl e, w)
        | Inr imgs \<Rightarrow>
       (case dict_get response_json ''bounding_boxes'' (JArr []) of
          Inl e \<Rightarrow> (Inl e, w)
        | Inr boxes \<Rightarrow> (Inr (Some \<lparr>masks = imgs, bounding_boxes = boxes\<rparr>), w)))))
     else if \<not> writable w (output_path a) then (Inl (OSError (output_path a)), w)
     else
       (let w1 = w\<lparr>files := (files w)(output_path a \<mapsto> [])\<rparr> in
        case load_global ns ''json'' of
          Inl e \<Rightarrow> (Inl e, w1)
        | Inr _ \<Rightarrow>
            (Inr None,
             print_diag (Diag_saved (output_path a))
               (w1\<lparr>files := (files w1)(output_path a \<mapsto>
                                encode_text (json_dumps response_json))\<rparr>)))))"

definition segment_image_via_faas_in ::
  "string list \<Rightarrow> lib \<Rightarrow> world \<Rightarrow> segment_args \<Rightarrow> (error + segmentation option) \<times> world" where
  "segment_image_via_faas_in ns L w a =
     (case segment_prepare L w a of
        Inl e \<Rightarrow> (Inl e, w)
      | Inr (api_key, payload) \<Rightarrow>
     (let endpoint = endpoint_url (endpoint_id a);
          w1 = (if debug a then print_diag (Diag_post endpoint) w else w) in
     (case (if debug a then load_global ns ''json'' else Inr ()) of
        Inl e \<Rightarrow> (Inl e, w1)
      | Inr _ \<Rightarrow>
     (let w2 = (if debug a then print_diag (Diag_payload payload) w1 else w1) in
     (case load_global ns ''json'' of
        Inl e \<Rightarrow> (Inl e, w2)
      | Inr _ \<Rightarrow>
     (case requests_post w2
             \<lparr>url = endpoint, headers = request_headers api_key, data = json_dumps payload\<rparr> of
        (Inl e, w3) \<Rightarrow> (Inl e, w3)
      | (Inr response, w3) \<Rightarrow>
     (let w4 = (if debug a
                then print_diag (Diag_response_text (resp_text response))
                       (print_diag (Diag_status (status_code response)) w3)
                else w3) in
      segment_finish ns L w4 a response)))))))"

definition segment_image_via_faas ::
  "lib \<Rightarrow> world \<Rightarrow> segment_args \<Rightarrow> (error + segmentation option) \<times> world" where
  "segment_image_via_faas = segment_image_via_faas_in segmentation_globals"

section \<open>What the specification compares the payload with\<close>

text \<open>
  A strict RFC 4648 decoder, the inverse of \<open>b64encode\<close>: groups of four characters of the
  alphabet, padding in the last group only. It reads which bytes a payload text stands for.
\<close>

definition b64_value :: "char \<Rightarrow> nat option" where
  "b64_value c =
     (let n = (of_char c :: nat) in
      if 65 \<le> n \<and> n \<le> 90 then Some (n - 65)
      else if 97 \<le> n \<and> n \<le> 122 then Some (n - 71)
      else if 48 \<le> n \<and> n \<le> 57 then Some (n + 4)
      else if c = CHR ''+'' then Some 62
      else if c = CHR ''/'' then Some 63
      else None)"

fun b64decode_strict :: "string \<Rightarrow> bytes option" where
  "b64decode_strict [] = Some []"
| "b64decode_strict (c1 # c2 # c3 # c4 # rest) =
     (case b64_value c1 of None \<Rightarrow> None | Some v1 \<Rightarrow>
     (case b64_value c2 of None \<Rightarrow> None | Some v2 \<Rightarrow>
      if c3 = CHR ''='' then
        (if c4 = CHR ''='' \<and> rest = [] \<and> v2 mod 16 = 0
         then Some [word_of_nat (v1 * 4 + v2 div 16)] else None)
      else
     (case b64_value c3 of None \<Rightarrow> None | Some v3 \<Rightarrow>
      if c4 = CHR ''='' then
        (if rest = [] \<and> v3 mod 4 = 0
         then Some [word_of_nat (v1 * 4 + v2 div 16), word_of_nat (v2 mod 16 * 16 + v3 div 4)]
         else None)
      else
     (case b64_value c4 of None \<Rightarrow> None | Some v4 \<Rightarrow>
     (case b64decode_strict rest of None \<Rightarrow> None | Some bs \<Rightarrow>
        Some (word_of_nat (v1 * 4 + v2 div 16) # word_of_nat (v2 mod 16 * 16 + v3 div 4)
              # word_of_nat (v3 mod 4 * 64 + v4) # bs))))))"
| "b64decode_strict _ = None"

text \<open>A PNG stream starts with the eight bytes of the PNG signature.\<close>

definition png_signature :: bytes where
  "png_signature = [137, 80, 78, 71, 13, 10, 26, 10]"

definition is_png :: "bytes \<Rightarrow> bool" where
  "is_png bs = (take 8 bs = png_signature)"

text \<open>
  The specification's reading of a payload text: it is the base64 encoding of PNG bytes.
\<close>

definition png_base64 :: "string \<Rightarrow> bool" where
  "png_base64 t = (case b64decode_strict t of None \<Rightarrow> False | Some bs \<Rightarrow> is_png bs)"

section \<open>Concrete worlds for the examples\<close>

text \<open>
  A stand-in for the libraries taken as parameters: PNG bytes are the signature followed by
  the samples; base64 decoding is the strict decoder; \<^verbatim>\<open>response.json()\<close> is given by a
  table of the body texts the examples use.
\<close>

definition demo_bodies :: "(string \<times> json) list" where
  "demo_bodies =
     [(''{\"output_image\":\"iVBORw0KGgoH\"}'', JObj [(''output_image'', JStr ''iVBORw0KGgoH'')]),
      (''{\"output_image\":\"\"}'', JObj [(''output_image'', JStr [])]),
      (''{}'', JObj []),
      (''{\"masks\":[],\"bounding_boxes\":[]}'',
         JObj [(''masks'', JArr []), (''bounding_boxes'', JArr [])])]"

definition demo_lib :: lib where
  "demo_lib =
     \<lparr>imencode_png = (\<lambda>i. Some (png_signature @ samples i)),
      imdecode_color =
        (\<lambda>bs. if bs = [] then Inl CvError
              else if is_png bs then Inr (Some (Image 1 (length bs - 8) (drop 8 bs)))
              else Inr None),
      b64decode = b64decode_strict,
      json_loads = map_of demo_bodies\<rparr>"

definition demo_image :: image where
  "demo_image = Image 1 2 [0, 255]"

text \<open>
  A world with the credential set, two PNG files and a JPEG file, every path writable, and
  a service that answers every request with the response \<open>r\<close>.
\<close>

definition demo_world :: "http_response \<Rightarrow> world" where
  "demo_world r =
     \<lparr>environ = [''RUNPOD_API_KEY'' \<mapsto> ''secret''],
      files = [''in.png'' \<mapsto> png_signature @ [1], ''mask.png'' \<mapsto> png_signature @ [2],
               ''photo.jpg'' \<mapsto> [255, 216, 255, 224]],
      writable = (\<lambda>p. True),
      service = (\<lambda>rq. Some r),
      sent = [],
      stdout = []\<rparr>"

definition inpaint_by_path :: inpaint_args where
  "inpaint_by_path =
     \<lparr>image_cv2 = None, image_path = Some ''in.png'', output_path = ''result.png'',
      endpoint_id = inpainting_RUNPOD_ENDPOINT_ID, debug = False,
      mask_cv2 = None, mask_path = Some ''mask.png''\<rparr>"

definition segment_by_path :: segment_args where
  "segment_by_path =
     \<lparr>image_cv2 = None, image_path = Some ''in.png'', output_path = ''result.json'',
      endpoint_id = segmentation_RUNPOD_ENDPOINT_ID, debug = False,
      class_names = None\<rparr>"

definition segment_in_memory :: segment_args where
  "segment_in_memory =
     \<lparr>image_cv2 = Some demo_image, image_path = None, output_path = ''result.json'',
      endpoint_id = segmentation_RUNPOD_ENDPOINT_ID, debug = False,
      class_names = Some [''cat'']\<rparr>"

definition inpaint_jpeg :: inpaint_args where
  "inpaint_jpeg = inpaint_by_path\<lparr>image_path := Some ''photo.jpg'', mask_path := Some ''photo.jpg''\<rparr>"

definition segment_jpeg :: segment_args where
  "segment_jpeg = segment_by_path\<lparr>image_path := Some ''photo.jpg''\<rparr>"

definition inpaint_unreadable_image_no_mask :: inpaint_args where
  "inpaint_unreadable_image_no_mask =
     inpaint_by_path\<lparr>image_path := Some ''missing.png'', mask_path := None\<rparr>"

definition inpaint_in_memory :: inpaint_args where
  "inpaint_in_memory = inpaint_by_path\<lparr>image_cv2 := Some demo_image, image_path := None\<rparr>"

definition inpaint_no_image :: inpaint_args where
  "inpaint_no_image = inpaint_by_path\<lparr>image_path := None\<rparr>"

definition inpaint_no_mask :: inpaint_args where
  "inpaint_no_mask = inpaint_by_path\<lparr>mask_path := None\<rparr>"

definition segment_no_image :: segment_args where
  "segment_no_image = segment_by_path\<lparr>image_path := None\<rparr>"

definition response_image :: http_response where
  "response_image = \<lparr>status_code = 200, resp_text = ''{\"output_image\":\"iVBORw0KGgoH\"}''\<rparr>"

definition response_empty_image :: http_response where
  "response_empty_image = \<lparr>status_code = 200, resp_text = ''{\"output_image\":\"\"}''\<rparr>"

definition response_no_masks :: http_response where
  "response_no_masks =
     \<lparr>status_code = 200, resp_text = ''{\"masks\":[],\"bounding_boxes\":[]}''\<rparr>"

definition response_500 :: http_response where
  "response_500 = \<lparr>status_code = 500, resp_text = ''Internal Server Error''\<rparr>"

definition response_304 :: http_response where
  "response_304 = \<lparr>status_code = 304, resp_text = ''{}''\<rparr>"

text \<open>The same world with the credential unset.\<close>

definition no_credential_world :: world where
  "no_credential_world = (demo_world response_image)\<lparr>environ := Map.empty\<rparr>"

section \<open>Facts shared by the proofs\<close>

lemma json_unbound:
  "load_global inpainting_globals ''json'' = Inl (NameError ''json'')"
  "load_global segmentation_globals ''json'' = Inl (NameError ''json'')"
  by (simp_all add: load_global_def inpainting_globals_def segmentation_globals_def)

lemma load_api_key_set:
  "environ w ''RUNPOD_API_KEY'' = Some k \<Longrightarrow> k \<noteq> [] \<Longrightarrow> load_api_key w = Inr k"
  by (simp add: load_api_key_def)

lemma load_api_key_unset:
  "environ w ''RUNPOD_API_KEY'' = None \<or> environ w ''RUNPOD_API_KEY'' = Some [] \<Longrightarrow>
   load_api_key w = Inl (ValueError credential_message)"
  by (auto simp: load_api_key_def)

lemmas demo_simps =
  demo_world_def demo_lib_def demo_bodies_def demo_image_def
  inpaint_by_path_def segment_by_path_def segment_in_memory_def
  inpaint_jpeg_def segment_jpeg_def inpaint_unreadable_image_no_mask_def
  inpaint_no_image_def inpaint_no_mask_def segment_no_image_def inpaint_in_memory_def
  response_image_def response_empty_image_def response_no_masks_def
  response_500_def response_304_def no_credential_world_def
  png_signature_def is_png_def

lemmas client_simps =
  inpaint_image_via_faas_def inpaint_image_via_faas_in_def inpaint_prepare_def
  inpaint_finish_def inpaint_payload_def
  segment_image_via_faas_def segment_image_via_faas_in_def segment_prepare_def
  segment_finish_def segment_payload_def
  load_api_key_def to_base64_def load_global_def print_diag_def requests_post_def
  raise_for_status_def print_timing_def endpoint_url_def request_headers_def
  inpainting_globals_def segmentation_globals_def
  credential_message_def missing_message_def empty_message_def

section \<open>The credential\<close>

text \<open>
  C6. With \<^verbatim>\<open>RUNPOD_API_KEY\<close> unset or empty, each client raises the \<^verbatim>\<open>ValueError\<close> for
  the missing credential (the specification's \<^verbatim>\<open>MissingCredentialError\<close>) and leaves the
  world as it was: no request reaches the transport and nothing else happens either.
\<close>

theorem missing_credential_raises:
  assumes "environ w ''RUNPOD_API_KEY'' = None \<or> environ w ''RUNPOD_API_KEY'' = Some []"
  shows "inpaint_image_via_faas L w a = (Inl (ValueError credential_message), w)
       \<and> segment_image_via_faas L w s = (Inl (ValueError credential_message), w)"
proof -
  from assms have "load_api_key w = Inl (ValueError credential_message)"
    by (rule load_api_key_unset)
  then show ?thesis
    by (simp add: inpaint_image_via_faas_def inpaint_image_via_faas_in_def inpaint_prepare_def
        segment_image_via_faas_def segment_image_via_faas_in_def segment_prepare_def)
qed

theorem missing_credential_raises_witness:
  "environ no_credential_world ''RUNPOD_API_KEY'' = None
   \<and> inpaint_image_via_faas demo_lib no_credential_world inpaint_by_path
       = (Inl (ValueError ''RUNPOD_API_KEY environment variable is not set.''),
          no_credential_world)
   \<and> segment_image_via_faas demo_lib no_credential_world segment_by_path
       = (Inl (ValueError ''RUNPOD_API_KEY environment variable is not set.''),
          no_credential_world)
   \<and> sent no_credential_world = []"
proof -
  have unset: "environ no_credential_world ''RUNPOD_API_KEY'' = None"
    by (simp add: no_credential_world_def)
  then have "environ no_credential_world ''RUNPOD_API_KEY'' = None
      \<or> environ no_credential_world ''RUNPOD_API_KEY'' = Some []" by simp
  from missing_credential_raises [OF this, of demo_lib inpaint_by_path segment_by_path] unset
  show ?thesis
    by (simp add: credential_message_def no_credential_world_def demo_world_def)
qed

section \<open>The unbound name \<^verbatim>\<open>json\<close>\<close>

text \<open>
  Once the credential and the sources are read, each function reaches a line that reads the
  global \<^verbatim>\<open>json\<close>, which its module does not bind: the call ends there, before
  \<^verbatim>\<open>requests.post\<close> is entered.
\<close>

lemma inpaint_after_prepare:
  assumes "inpaint_prepare L w a = Inr (k, p)"
  shows "fst (inpaint_image_via_faas L w a) = Inl (NameError ''json'')
       \<and> sent (snd (inpaint_image_via_faas L w a)) = sent w
       \<and> files (snd (inpaint_image_via_faas L w a)) = files w"
  using assms
  by (simp add: inpaint_image_via_faas_def inpaint_image_via_faas_in_def json_unbound
      print_diag_def Let_def)

lemma segment_after_prepare:
  assumes "segment_prepare L w a = Inr (k, p)"
  shows "fst (segment_image_via_faas L w a) = Inl (NameError ''json'')
       \<and> sent (snd (segment_image_via_faas L w a)) = sent w
       \<and> files (snd (segment_image_via_faas L w a)) = files w"
  using assms
  by (simp add: segment_image_via_faas_def segment_image_via_faas_in_def json_unbound
      print_diag_def Let_def)

lemma inpaint_never_returns: "isl (fst (inpaint_image_via_faas L w a))"
proof (cases "inpaint_prepare L w a")
  case (Inl e)
  then show ?thesis
    by (simp add: inpaint_image_via_faas_def inpaint_image_via_faas_in_def)
next
  case (Inr kp)
  then obtain k p where "inpaint_prepare L w a = Inr (k, p)" by (cases kp) auto
  from inpaint_after_prepare [OF this] show ?thesis by simp
qed

lemma segment_never_returns: "isl (fst (segment_image_via_faas L w a))"
proof (cases "segment_prepare L w a")
  case (Inl e)
  then show ?thesis
    by (simp add: segment_image_via_faas_def segment_image_via_faas_in_def)
next
  case (Inr kp)
  then obtain k p where "segment_prepare L w a = Inr (k, p)" by (cases kp) auto
  from segment_after_prepare [OF this] show ?thesis by simp
qed

text \<open>
  C1. Neither module binds \<^verbatim>\<open>json\<close>. With the credential set and the image (for
  inpainting also the mask) read and encoded without error, each client raises
  \<^verbatim>\<open>NameError\<close> for \<^verbatim>\<open>json\<close> and the transport has received no request. So no call
  of either client, whatever its world and arguments, returns a value.
\<close>

theorem json_name_error:
  assumes cred: "environ w ''RUNPOD_API_KEY'' = Some k" "k \<noteq> []"
    and img: "to_base64 L w (image_cv2 a) (image_path a) ''image'' = Inr ib"
    and msk: "to_base64 L w (mask_cv2 a) (mask_path a) ''mask'' = Inr mb"
    and simg: "to_base64 L w (image_cv2 s) (image_path s) ''image'' = Inr sb"
  shows "''json'' \<notin> set inpainting_globals \<and> ''json'' \<notin> set segmentation_globals
       \<and> fst (inpaint_image_via_faas L w a) = Inl (NameError ''json'')
       \<and> sent (snd (inpaint_image_via_faas L w a)) = sent w
       \<and> fst (segment_image_via_faas L w s) = Inl (NameError ''json'')
       \<and> sent (snd (segment_image_via_faas L w s)) = sent w
       \<and> isl (fst (inpaint_image_via_faas L' w' a'))
       \<and> isl (fst (segment_image_via_faas L' w' s'))"
proof -
  from cred have key: "load_api_key w = Inr k" by (rule load_api_key_set)
  have "inpaint_prepare L w a = Inr (k, inpaint_payload ib mb)"
    by (simp add: inpaint_prepare_def key img msk)
  note i = inpaint_after_prepare [OF this]
  have "segment_prepare L w s = Inr (k, segment_payload sb (class_names s))"
    by (simp add: segment_prepare_def key simg)
  note s = segment_after_prepare [OF this]
  have "''json'' \<notin> set inpainting_globals" "''json'' \<notin> set segmentation_globals"
    by (simp_all add: inpainting_globals_def segmentation_globals_def)
  with i s inpaint_never_returns segment_never_returns show ?thesis by simp
qed

theorem json_name_error_witness:
  "environ (demo_world response_image) ''RUNPOD_API_KEY'' = Some ''secret''
   \<and> to_base64 demo_lib (demo_world response_image) (image_cv2 inpaint_by_path)
        (image_path inpaint_by_path) ''image'' = Inr ''iVBORw0KGgoB''
   \<and> to_base64 demo_lib (demo_world response_image) (mask_cv2 inpaint_by_path)
        (mask_path inpaint_by_path) ''mask'' = Inr ''iVBORw0KGgoC''
   \<and> to_base64 demo_lib (demo_world response_image) (image_cv2 segment_in_memory)
        (image_path segment_in_memory) ''image'' = Inr ''iVBORw0KGgoA/w==''
   \<and> fst (inpaint_image_via_faas demo_lib (demo_world response_image) inpaint_by_path)
       = Inl (NameError ''json'')
   \<and> sent (snd (inpaint_image_via_faas demo_lib (demo_world response_image) inpaint_by_path))
       = sent (demo_world response_image)
   \<and> fst (segment_image_via_faas demo_lib (demo_world response_image) segment_in_memory)
       = Inl (NameError ''json'')
   \<and> sent (snd (segment_image_via_faas demo_lib (demo_world response_image) segment_in_memory))
       = sent (demo_world response_image)
   \<and> sent (demo_world response_image) = []"
proof -
  have cred: "environ (demo_world response_image) ''RUNPOD_API_KEY'' = Some ''secret''"
    "''secret'' \<noteq> []"
    by (simp_all add: demo_world_def)
  have img: "to_base64 demo_lib (demo_world response_image) (image_cv2 inpaint_by_path)
      (image_path inpaint_by_path) ''image'' = Inr ''iVBORw0KGgoB''"
    by code_simp
  have msk: "to_base64 demo_lib (demo_world response_image) (mask_cv2 inpaint_by_path)
      (mask_path inpaint_by_path) ''mask'' = Inr ''iVBORw0KGgoC''"
    by code_simp
  have simg: "to_base64 demo_lib (demo_world response_image) (image_cv2 segment_in_memory)
      (image_path segment_in_memory) ''image'' = Inr ''iVBORw0KGgoA/w==''"
    by code_simp
  have unsent: "sent (demo_world response_image) = []" by (simp add: demo_world_def)
  note th = json_name_error [OF cred img msk simg,
      of demo_lib "demo_world response_image" inpaint_by_path segment_in_memory]
  from th have r:
    "fst (inpaint_image_via_faas demo_lib (demo_world response_image) inpaint_by_path)
       = Inl (NameError ''json'')"
    "sent (snd (inpaint_image_via_faas demo_lib (demo_world response_image) inpaint_by_path))
       = sent (demo_world response_image)"
    "fst (segment_image_via_faas demo_lib (demo_world response_image) segment_in_memory)
       = Inl (NameError ''json'')"
    "sent (snd (segment_image_via_faas demo_lib (demo_world response_image) segment_in_memory))
       = sent (demo_world response_image)"
    by blast+
  show ?thesis by (intro conjI) (rule cred(1) img msk simg r unsent)+
qed

section \<open>Errors leave the files alone\<close>










section \<open>Missing sources\<close>

text \<open>
  C5, as amended. With the credential set: a call of either client without an image source
  raises the \<^verbatim>\<open>ValueError\<close> that asks for one (the specification's
  \<^verbatim>\<open>MissingInputError\<close>); an inpainting call without a mask source raises the one that
  asks for a mask, provided its image source, which is handled first, was read and encoded
  without error. In each case the world is unchanged, so no request was sent.
\<close>

theorem missing_input_raises:
  assumes cred: "environ w ''RUNPOD_API_KEY'' = Some k" "k \<noteq> []"
  shows "(image_cv2 a = None \<and> image_path a = None \<longrightarrow>
            inpaint_image_via_faas L w a = (Inl (ValueError (missing_message ''image'')), w))
       \<and> (image_cv2 s = None \<and> image_path s = None \<longrightarrow>
            segment_image_via_faas L w s = (Inl (ValueError (missing_message ''image'')), w))
       \<and> (to_base64 L w (image_cv2 a) (image_path a) ''image'' = Inr ib
            \<and> mask_cv2 a = None \<and> mask_path a = None \<longrightarrow>
            inpaint_image_via_faas L w a = (Inl (ValueError (missing_message ''mask'')), w))"
proof -
  from cred have key: "load_api_key w = Inr k" by (rule load_api_key_set)
  show ?thesis
    by (simp add: key inpaint_image_via_faas_def inpaint_image_via_faas_in_def
        inpaint_prepare_def segment_image_via_faas_def segment_image_via_faas_in_def
        segment_prepare_def to_base64_def)
qed

theorem missing_input_raises_witness:
  "environ (demo_world response_image) ''RUNPOD_API_KEY'' = Some ''secret''
   \<and> image_cv2 inpaint_no_image = None \<and> image_path inpaint_no_image = None
   \<and> inpaint_image_via_faas demo_lib (demo_world response_image) inpaint_no_image
       = (Inl (ValueError ''Either image or image_path must be provided.''),
          demo_world response_image)
   \<and> image_cv2 segment_no_image = None \<and> image_path segment_no_image = None
   \<and> segment_image_via_faas demo_lib (demo_world response_image) segment_no_image
       = (Inl (ValueError ''Either image or image_path must be provided.''),
          demo_world response_image)
   \<and> to_base64 demo_lib (demo_world response_image) (image_cv2 inpaint_no_mask)
        (image_path inpaint_no_mask) ''image'' = Inr ''iVBORw0KGgoB''
   \<and> mask_cv2 inpaint_no_mask = None \<and> mask_path inpaint_no_mask = None
   \<and> inpaint_image_via_faas demo_lib (demo_world response_image) inpaint_no_mask
       = (Inl (ValueError ''Either mask or mask_path must be provided.''),
          demo_world response_image)
   \<and> sent (demo_world response_image) = []"
proof -
  have cred: "environ (demo_world response_image) ''RUNPOD_API_KEY'' = Some ''secret''"
    "''secret'' \<noteq> []"
    by (simp_all add: demo_world_def)
  have none:
    "image_cv2 inpaint_no_image = None" "image_path inpaint_no_image = None"
    "image_cv2 segment_no_image = None" "image_path segment_no_image = None"
    "mask_cv2 inpaint_no_mask = None" "mask_path inpaint_no_mask = None"
    by (simp_all add: inpaint_no_image_def segment_no_image_def inpaint_no_mask_def
        inpaint_by_path_def segment_by_path_def)
  have img: "to_base64 demo_lib (demo_world response_image) (image_cv2 inpaint_no_mask)
        (image_path inpaint_no_mask) ''image'' = Inr ''iVBORw0KGgoB''"
    by code_simp
  have msg: "missing_message ''image'' = ''Either image or image_path must be provided.''"
    "missing_message ''mask'' = ''Either mask or mask_path must be provided.''"
    by (simp_all add: missing_message_def)
  have unsent: "sent (demo_world response_image) = []" by (simp add: demo_world_def)
  note a = missing_input_raises [OF cred, of inpaint_no_image demo_lib segment_no_image]
  note b = missing_input_raises [OF cred, of inpaint_no_mask demo_lib segment_no_image
      "''iVBORw0KGgoB''"]
  from a none have r1:
    "inpaint_image_via_faas demo_lib (demo_world response_image) inpaint_no_image
       = (Inl (ValueError ''Either image or image_path must be provided.''),
          demo_world response_image)"
    "segment_image_via_faas demo_lib (demo_world response_image) segment_no_image
       = (Inl (ValueError ''Either image or image_path must be provided.''),
          demo_world response_image)"
    unfolding msg by blast+
  from b none img have r2:
    "inpaint_image_via_faas demo_lib (demo_world response_image) inpaint_no_mask
       = (Inl (ValueError ''Either mask or mask_path must be provided.''),
          demo_world response_image)"
    unfolding msg by blast
  show ?thesis by (intro conjI) (rule cred(1) none img r1 r2 unsent)+
qed

text \<open>
  C5 as stated fails: with the credential set, no mask source, and an image path that
  cannot be read, the inpainting client raises the error of \<^verbatim>\<open>open\<close> for the image,
  not the error for the missing mask.
\<close>

theorem unreadable_image_hides_missing_mask:
  "environ (demo_world response_image) ''RUNPOD_API_KEY'' = Some ''secret''
   \<and> mask_cv2 inpaint_unreadable_image_no_mask = None
   \<and> mask_path inpaint_unreadable_image_no_mask = None
   \<and> inpaint_image_via_faas demo_lib (demo_world response_image)
         inpaint_unreadable_image_no_mask
       = (Inl (OSError ''missing.png''), demo_world response_image)
   \<and> OSError ''missing.png'' \<noteq> ValueError (missing_message ''mask'')"
  by (simp add: demo_simps client_simps)

section \<open>The payload\<close>

text \<open>
  The strict decoder inverts \<open>b64encode\<close>, so a payload text stands for exactly the bytes
  that were encoded.
\<close>

lemma b64_value_pad: "b64_value CHR ''='' = None"
  by (simp add: b64_value_def)

lemma b64_value_char: "n < 64 \<Longrightarrow> b64_value (b64_char n) = Some n"
  by (auto simp: b64_value_def b64_char_def Let_def)

lemma b64_char_not_pad: "n < 64 \<Longrightarrow> b64_char n \<noteq> CHR ''=''"
  using b64_value_char b64_value_pad by fastforce

lemma byte_split:
  fixes a :: byte
  shows "word_of_nat (unat a div 4 * 4 + unat a mod 4 * 16 div 16) = a"
proof -
  have "unat a div 4 * 4 + unat a mod 4 * 16 div 16 = unat a" by simp
  then show ?thesis by simp
qed

lemma byte_split2:
  fixes a b :: byte
  shows "word_of_nat (unat a div 4 * 4 + (unat a mod 4 * 16 + unat b div 16) div 16) = a"
    and "word_of_nat ((unat a mod 4 * 16 + unat b div 16) mod 16 * 16 + unat b mod 16 * 4 div 4) = b"
proof -
  have lt: "unat b < 256" using unsigned_less [of b, where ?'a = nat] by simp
  then have b16: "unat b div 16 < 16" by simp
  have "unat a div 4 * 4 + (unat a mod 4 * 16 + unat b div 16) div 16 = unat a"
    using b16 by simp
  then show "word_of_nat (unat a div 4 * 4 + (unat a mod 4 * 16 + unat b div 16) div 16) = a"
    by simp
  have "(unat a mod 4 * 16 + unat b div 16) mod 16 = unat b div 16"
    using b16 by simp
  then have "(unat a mod 4 * 16 + unat b div 16) mod 16 * 16 + unat b mod 16 * 4 div 4 = unat b"
    by simp
  then show "word_of_nat ((unat a mod 4 * 16 + unat b div 16) mod 16 * 16 + unat b mod 16 * 4 div 4) = b"
    by simp
qed


lemma byte_split3:
  fixes b c :: byte
  shows "word_of_nat ((unat a mod 4 * 16 + unat b div 16) mod 16 * 16
            + (unat b mod 16 * 4 + unat c div 64) div 4) = b"
    and "word_of_nat ((unat b mod 16 * 4 + unat c div 64) mod 4 * 64 + unat c mod 64) = c"
proof -
  have "unat b < 256" using unsigned_less [of b, where ?'a = nat] by simp
  then have b16: "unat b div 16 < 16" by simp
  have "unat c < 256" using unsigned_less [of c, where ?'a = nat] by simp
  then have c64: "unat c div 64 < 4" by simp
  have "(unat a mod 4 * 16 + unat b div 16) mod 16 = unat b div 16"
    using b16 by simp
  moreover have "(unat b mod 16 * 4 + unat c div 64) div 4 = unat b mod 16"
    using c64 by simp
  ultimately have "(unat a mod 4 * 16 + unat b div 16) mod 16 * 16
            + (unat b mod 16 * 4 + unat c div 64) div 4 = unat b" by simp
  then show "word_of_nat ((unat a mod 4 * 16 + unat b div 16) mod 16 * 16
            + (unat b mod 16 * 4 + unat c div 64) div 4) = b" by simp
  have "(unat b mod 16 * 4 + unat c div 64) mod 4 = unat c div 64"
    using c64 by simp
  then have "(unat b mod 16 * 4 + unat c div 64) mod 4 * 64 + unat c mod 64 = unat c"
    by simp
  then show "word_of_nat ((unat b mod 16 * 4 + unat c div 64) mod 4 * 64 + unat c mod 64) = c"
    by simp
qed

lemma sextets:
  fixes a b c :: byte
  shows "unat a div 4 < 64" "unat a mod 4 * 16 < 64" "unat a mod 4 * 16 + unat b div 16 < 64"
    "unat b mod 16 * 4 < 64" "unat b mod 16 * 4 + unat c div 64 < 64" "unat c mod 64 < 64"
proof -
  have a: "unat a < 256" using unsigned_less [of a, where ?'a = nat] by simp
  have b: "unat b < 256" using unsigned_less [of b, where ?'a = nat] by simp
  have c: "unat c < 256" using unsigned_less [of c, where ?'a = nat] by simp
  show "unat a div 4 < 64" using a by simp
  have a4: "unat a mod 4 < 4" by simp
  then show "unat a mod 4 * 16 < 64" by linarith
  have b16: "unat b div 16 < 16" using b by simp
  with a4 show "unat a mod 4 * 16 + unat b div 16 < 64" by linarith
  have bm: "unat b mod 16 < 16" by simp
  then show "unat b mod 16 * 4 < 64" by linarith
  have c64: "unat c div 64 < 4" using c by simp
  with bm show "unat b mod 16 * 4 + unat c div 64 < 64" by linarith
  show "unat c mod 64 < 64" by simp
qed

lemma b64decode_strict_b64encode: "b64decode_strict (b64encode bs) = Some bs"
proof (induction bs rule: b64encode.induct)
  case 1
  show ?case by simp
next
  case (2 a)
  define v1 v2 where "v1 = unat a div 4" and "v2 = unat a mod 4 * 16"
  have enc: "b64encode [a] = [b64_char v1, b64_char v2, CHR ''='', CHR ''='']"
    by (simp add: v1_def v2_def)
  have vals: "b64_value (b64_char v1) = Some v1" "b64_value (b64_char v2) = Some v2"
    unfolding v1_def v2_def by (rule b64_value_char, rule sextets)+
  have m: "v2 mod 16 = 0" by (simp add: v2_def)
  have bytes: "word_of_nat (v1 * 4 + v2 div 16) = a"
    unfolding v1_def v2_def by (rule byte_split)
  show ?case unfolding enc
    by (simp add: vals m bytes del: of_nat_add of_nat_mult)
next
  case (3 a b)
  define v1 v2 v3 where "v1 = unat a div 4" and "v2 = unat a mod 4 * 16 + unat b div 16"
    and "v3 = unat b mod 16 * 4"
  have enc: "b64encode [a, b] = [b64_char v1, b64_char v2, b64_char v3, CHR ''='']"
    by (simp add: v1_def v2_def v3_def)
  have vals: "b64_value (b64_char v1) = Some v1" "b64_value (b64_char v2) = Some v2"
    "b64_value (b64_char v3) = Some v3"
    unfolding v1_def v2_def v3_def by (rule b64_value_char, rule sextets)+
  have np: "b64_char v3 \<noteq> CHR ''=''"
    unfolding v3_def by (rule b64_char_not_pad) (rule sextets)
  have m: "v3 mod 4 = 0" by (simp add: v3_def)
  have bytes: "word_of_nat (v1 * 4 + v2 div 16) = a"
    "word_of_nat (v2 mod 16 * 16 + v3 div 4) = b"
    unfolding v1_def v2_def v3_def by (rule byte_split2)+
  show ?case unfolding enc
    by (simp add: vals np m bytes del: of_nat_add of_nat_mult)
next
  case (4 a b c rest)
  define v1 v2 v3 v4 where "v1 = unat a div 4" and "v2 = unat a mod 4 * 16 + unat b div 16"
    and "v3 = unat b mod 16 * 4 + unat c div 64" and "v4 = unat c mod 64"
  have enc: "b64encode (a # b # c # rest)
      = b64_char v1 # b64_char v2 # b64_char v3 # b64_char v4 # b64encode rest"
    by (simp add: v1_def v2_def v3_def v4_def)
  have vals: "b64_value (b64_char v1) = Some v1" "b64_value (b64_char v2) = Some v2"
    "b64_value (b64_char v3) = Some v3" "b64_value (b64_char v4) = Some v4"
    unfolding v1_def v2_def v3_def v4_def by (rule b64_value_char, rule sextets)+
  have np: "b64_char v3 \<noteq> CHR ''=''" "b64_char v4 \<noteq> CHR ''=''"
    unfolding v3_def v4_def by (rule b64_char_not_pad, rule sextets)+
  have bytes: "word_of_nat (v1 * 4 + v2 div 16) = a"
    "word_of_nat (v2 mod 16 * 16 + v3 div 4) = b"
    "word_of_nat (v3 mod 4 * 64 + v4) = c"
    unfolding v1_def v2_def v3_def v4_def
    by (rule byte_split2 byte_split3)+
  show ?case unfolding enc
    by (simp add: vals np bytes "4.IH" del: of_nat_add of_nat_mult)
qed


lemma png_base64_b64encode: "png_base64 (b64encode bs) = is_png bs"
  by (simp add: png_base64_def b64decode_strict_b64encode)

text \<open>
  C2, as amended. The payload's base64 text encodes, for an in-memory image (or mask), the
  PNG buffer \<^verbatim>\<open>cv2.imencode\<close> returns; for a path, the bytes of the file exactly as read,
  whatever their format: the text decodes back to the file's bytes, and it is base64 of PNG
  only if the file already is PNG. The payloads of both clients hold these texts.
\<close>

theorem payload_encodes_source_bytes:
  "(imencode_png L i = Some buffer \<longrightarrow>
      to_base64 L w (Some i) path what = Inr (b64encode buffer))
   \<and> (files w p = Some raw \<longrightarrow>
      to_base64 L w None (Some p) what = Inr (b64encode raw)
      \<and> b64decode_strict (b64encode raw) = Some raw
      \<and> png_base64 (b64encode raw) = is_png raw)
   \<and> (inpaint_prepare L w a = Inr (k, payload) \<longrightarrow>
      (\<exists>ib mb. to_base64 L w (image_cv2 a) (image_path a) ''image'' = Inr ib
          \<and> to_base64 L w (mask_cv2 a) (mask_path a) ''mask'' = Inr mb
          \<and> payload = inpaint_payload ib mb))
   \<and> (segment_prepare L w s = Inr (k', payload') \<longrightarrow>
      (\<exists>ib. to_base64 L w (image_cv2 s) (image_path s) ''image'' = Inr ib
          \<and> payload' = segment_payload ib (class_names s)))"
proof (intro conjI impI)
  assume "imencode_png L i = Some buffer"
  then show "to_base64 L w (Some i) path what = Inr (b64encode buffer)"
    by (simp add: to_base64_def)
next
  assume "files w p = Some raw"
  then show "to_base64 L w None (Some p) what = Inr (b64encode raw)"
    by (simp add: to_base64_def)
next
  show "b64decode_strict (b64encode raw) = Some raw"
    by (rule b64decode_strict_b64encode)
next
  show "png_base64 (b64encode raw) = is_png raw"
    by (rule png_base64_b64encode)
next
  assume "inpaint_prepare L w a = Inr (k, payload)"
  then show "\<exists>ib mb. to_base64 L w (image_cv2 a) (image_path a) ''image'' = Inr ib
          \<and> to_base64 L w (mask_cv2 a) (mask_path a) ''mask'' = Inr mb
          \<and> payload = inpaint_payload ib mb"
    by (auto simp: inpaint_prepare_def split: sum.splits)
next
  assume "segment_prepare L w s = Inr (k', payload')"
  then show "\<exists>ib. to_base64 L w (image_cv2 s) (image_path s) ''image'' = Inr ib
          \<and> payload' = segment_payload ib (class_names s)"
    by (auto simp: segment_prepare_def split: sum.splits)
qed

theorem payload_encodes_source_bytes_witness:
  "imencode_png demo_lib demo_image = Some [137, 80, 78, 71, 13, 10, 26, 10, 0, 255]
   \<and> to_base64 demo_lib (demo_world response_image) (Some demo_image) None ''image''
       = Inr (b64encode [137, 80, 78, 71, 13, 10, 26, 10, 0, 255])
   \<and> files (demo_world response_image) ''photo.jpg'' = Some [255, 216, 255, 224]
   \<and> to_base64 demo_lib (demo_world response_image) None (Some ''photo.jpg'') ''image''
       = Inr (b64encode [255, 216, 255, 224])
   \<and> b64decode_strict (b64encode [255, 216, 255, 224]) = Some [255, 216, 255, 224]
   \<and> png_base64 (b64encode [255, 216, 255, 224]) = is_png [255, 216, 255, 224]
   \<and> inpaint_prepare demo_lib (demo_world response_image) inpaint_jpeg
       = Inr (''secret'', inpaint_payload ''/9j/4A=='' ''/9j/4A=='')
   \<and> (\<exists>ib mb. to_base64 demo_lib (demo_world response_image) (image_cv2 inpaint_jpeg)
            (image_path inpaint_jpeg) ''image'' = Inr ib
          \<and> to_base64 demo_lib (demo_world response_image) (mask_cv2 inpaint_jpeg)
            (mask_path inpaint_jpeg) ''mask'' = Inr mb
          \<and> inpaint_payload ''/9j/4A=='' ''/9j/4A=='' = inpaint_payload ib mb)
   \<and> segment_prepare demo_lib (demo_world response_image) segment_in_memory
       = Inr (''secret'', segment_payload ''iVBORw0KGgoA/w=='' (Some [''cat'']))
   \<and> (\<exists>ib. to_base64 demo_lib (demo_world response_image) (image_cv2 segment_in_memory)
            (image_path segment_in_memory) ''image'' = Inr ib
          \<and> segment_payload ''iVBORw0KGgoA/w=='' (Some [''cat''])
              = segment_payload ib (class_names segment_in_memory))"
proof -
  have h1: "imencode_png demo_lib demo_image = Some [137, 80, 78, 71, 13, 10, 26, 10, 0, 255]"
    by code_simp
  have h2: "files (demo_world response_image) ''photo.jpg'' = Some [255, 216, 255, 224]"
    by code_simp
  have h3: "inpaint_prepare demo_lib (demo_world response_image) inpaint_jpeg
       = Inr (''secret'', inpaint_payload ''/9j/4A=='' ''/9j/4A=='')"
    by code_simp
  have h4: "segment_prepare demo_lib (demo_world response_image) segment_in_memory
       = Inr (''secret'', segment_payload ''iVBORw0KGgoA/w=='' (Some [''cat'']))"
    by code_simp
  note th = payload_encodes_source_bytes [of demo_lib demo_image
      "[137, 80, 78, 71, 13, 10, 26, 10, 0, 255]" "demo_world response_image" None "''image''"
      "''photo.jpg''" "[255, 216, 255, 224]" inpaint_jpeg "''secret''"
      "inpaint_payload ''/9j/4A=='' ''/9j/4A==''" segment_in_memory "''secret''"
      "segment_payload ''iVBORw0KGgoA/w=='' (Some [''cat''])"]
  from th h1 have r1: "to_base64 demo_lib (demo_world response_image) (Some demo_image) None
      ''image'' = Inr (b64encode [137, 80, 78, 71, 13, 10, 26, 10, 0, 255])"
    by blast
  from th h2 have r2:
    "to_base64 demo_lib (demo_world response_image) None (Some ''photo.jpg'') ''image''
       = Inr (b64encode [255, 216, 255, 224])"
    "b64decode_strict (b64encode [255, 216, 255, 224]) = Some [255, 216, 255, 224]"
    "png_base64 (b64encode [255, 216, 255, 224]) = is_png [255, 216, 255, 224]"
    by blast+
  from th h3 have r3: "\<exists>ib mb. to_base64 demo_lib (demo_world response_image)
            (image_cv2 inpaint_jpeg) (image_path inpaint_jpeg) ''image'' = Inr ib
          \<and> to_base64 demo_lib (demo_world response_image) (mask_cv2 inpaint_jpeg)
            (mask_path inpaint_jpeg) ''mask'' = Inr mb
          \<and> inpaint_payload ''/9j/4A=='' ''/9j/4A=='' = inpaint_payload ib mb"
    by blast
  from th h4 have r4: "\<exists>ib. to_base64 demo_lib (demo_world response_image)
            (image_cv2 segment_in_memory) (image_path segment_in_memory) ''image'' = Inr ib
          \<and> segment_payload ''iVBORw0KGgoA/w=='' (Some [''cat''])
              = segment_payload ib (class_names segment_in_memory)"
    by blast
  show ?thesis by (intro conjI) (rule h1 h2 h3 h4 r1 r2 r3 r4)+
qed

text \<open>
  C2 as stated fails: a JPEG file given by path reaches the payload of either client as
  the base64 text of its own four bytes, which are not a PNG stream.
\<close>

theorem file_bytes_not_png_normalized:
  "files (demo_world response_image) ''photo.jpg'' = Some [255, 216, 255, 224]
   \<and> inpaint_prepare demo_lib (demo_world response_image) inpaint_jpeg
       = Inr (''secret'', inpaint_payload ''/9j/4A=='' ''/9j/4A=='')
   \<and> segment_prepare demo_lib (demo_world response_image) segment_jpeg
       = Inr (''secret'', segment_payload ''/9j/4A=='' None)
   \<and> b64decode_strict ''/9j/4A=='' = Some [255, 216, 255, 224]
   \<and> \<not> png_base64 ''/9j/4A=='' "
  by code_simp

end
